theory Spec2Isabelle
  imports Main
begin

section \<open>Dynamic resource claims of podman: the data model\<close>

text \<open>
  The development follows \<^verbatim>\<open>pkg/k8s.io/api/resource/dynamic_resources_podman_types.go\<close>.
  Go strings are byte sequences and are modelled as \<^typ>\<open>string\<close>; a Go map from strings
  is a partial function on \<^typ>\<open>string\<close>, where reading a missing key gives \<open>None\<close>
  (the \<^verbatim>\<open>v, ok := m[k]\<close> form with \<^verbatim>\<open>ok == false\<close>).
\<close>

subsection \<open>Constants\<close>

definition CDIClaimParametersApiVersion :: string where
  "CDIClaimParametersApiVersion = ''cdi.resource.podman.io/v1''"

definition SimpleDeviceClaimParametersApiVersion :: string where
  "SimpleDeviceClaimParametersApiVersion = ''simpledevice.resource.podman.io/v1''"

subsection \<open>Objects\<close>

text \<open>
  Modelled from the spec: the declarations of \<^verbatim>\<open>metav1.TypeMeta\<close> and
  \<^verbatim>\<open>metav1.ObjectMeta\<close> are not among the sources. Both are embedded in
  \<^verbatim>\<open>ClaimParameters\<close> and in \<^verbatim>\<open>v1alpha2.ResourceClaim\<close>, which promotes their fields;
  the code reads \<^verbatim>\<open>APIVersion\<close> (the schema version of the spec) and \<^verbatim>\<open>Name\<close>
  (the name of the spec) and nothing else of them.
\<close>

record K8sObject =
  APIVersion :: string
  Name :: string

text \<open>
  \<^verbatim>\<open>ClaimParameters\<close>: the embedded metadata and the map \<^verbatim>\<open>Spec map[string]string\<close>.
  A nil \<^verbatim>\<open>Spec\<close> reads like an empty one.
\<close>

record ClaimParameters = K8sObject +
  Spec :: "string \<rightharpoonup> string"

text \<open>
  Modelled from the spec: the declaration of \<^verbatim>\<open>v1alpha2.ResourceClaim\<close> is not among
  the sources. The code reads its promoted \<^verbatim>\<open>Name\<close> and \<^verbatim>\<open>APIVersion\<close> and the path
  \<^verbatim>\<open>Spec.ParametersRef.Name\<close>, which the spec calls \<open>parametersRef\<close>: the name of a
  parameter set, present in every template. The field below is that name.
\<close>

record ResourceClaim = K8sObject +
  ParametersRef :: string

text \<open>
  Modelled from the spec: the declaration of \<^verbatim>\<open>v1.PodResourceClaim\<close> is not among the
  sources. The code compares \<^verbatim>\<open>Source.ResourceClaimName\<close> and
  \<^verbatim>\<open>Source.ResourceClaimTemplateName\<close> with nil and dereferences the second, so both are
  pointers to strings: \<open>None\<close> is nil. The resolver receives a pointer to the claim and
  reads through it at once; the model takes the claim it points to, and a nil pointer,
  which is no claim, is outside it.
\<close>

record ClaimSource =
  ResourceClaimName :: "string option"
  ResourceClaimTemplateName :: "string option"

record PodResourceClaim =
  Source :: ClaimSource

text \<open>
  \<^verbatim>\<open>DynamicResourcesManager\<close>: the two registries. Its fields are unexported and
  \<^verbatim>\<open>NewDynamicDevicesResourceManager\<close> allocates both maps; a manager here is such a
  value, whose registries exist. The zero value of the struct has nil maps: they read as
  empty ones, but the assignments of the two \<^verbatim>\<open>Add\<close> methods panic on them. It holds no
  registry and is no value of this type.
\<close>

record DynamicResourcesManager =
  resourceClaimParameters :: "string \<rightharpoonup> ClaimParameters"
  resourceClaimTemplates :: "string \<rightharpoonup> ResourceClaim"

text \<open>
  Every error of the file is built by \<^verbatim>\<open>fmt.Errorf\<close> and is known by its message alone;
  the Go \<^verbatim>\<open>error\<close> result is \<open>None\<close> for nil and \<open>Some\<close> of the message otherwise.
\<close>

type_synonym error = string

section \<open>The operations\<close>

text \<open>
  Every method is a transition of the manager: it takes the registries and returns them
  together with its Go results. The receiver is passed by value, but its maps are
  references, so the assignments of the two \<^verbatim>\<open>Add\<close> methods reach the caller's manager.
  The resolving methods assign to neither map and hand back the registries they were given.
  \<^verbatim>\<open>PrintState\<close> only prints the two registries and is left out.
\<close>

definition NewDynamicDevicesResourceManager :: DynamicResourcesManager where
  "NewDynamicDevicesResourceManager =
     \<lparr>resourceClaimParameters = Map.empty, resourceClaimTemplates = Map.empty\<rparr>"

definition AddClaimParameters ::
  "DynamicResourcesManager \<Rightarrow> ClaimParameters \<Rightarrow> DynamicResourcesManager \<times> error option" where
  "AddClaimParameters dm params =
     (case resourceClaimParameters dm (Name params) of
        Some _ \<Rightarrow> (dm, Some ''duplicate resource claim parameters defined'')
      | None \<Rightarrow>
          (dm\<lparr>resourceClaimParameters := (resourceClaimParameters dm)(Name params \<mapsto> params)\<rparr>,
           None))"

definition AddResourceClaimTemplate ::
  "DynamicResourcesManager \<Rightarrow> ResourceClaim \<Rightarrow> DynamicResourcesManager \<times> error option" where
  "AddResourceClaimTemplate dm tmpl =
     (case resourceClaimTemplates dm (Name tmpl) of
        Some _ \<Rightarrow> (dm, Some ''duplicate resource claim template defined'')
      | None \<Rightarrow>
          (dm\<lparr>resourceClaimTemplates := (resourceClaimTemplates dm)(Name tmpl \<mapsto> tmpl)\<rparr>,
           None))"

text \<open>The two message templates, local variables of the resolving methods.\<close>

definition errorMsgTmpl :: "string \<Rightarrow> string" where
  "errorMsgTmpl s = ''failed to resolve resource claim to device: '' @ s"

definition errTmpl :: "string \<Rightarrow> string" where
  "errTmpl s = ''missing '' @ s @ '' parameter of CDI claim parameter resource''"

text \<open>The zero value \<^verbatim>\<open>v1alpha2.ResourceClaim{}\<close>, returned beside an error.\<close>

definition ResourceClaim_zero :: ResourceClaim where
  "ResourceClaim_zero = \<lparr>APIVersion = [], Name = [], ParametersRef = []\<rparr>"

definition resolveK8sPodResourceClaimToResourceClaimTemplate ::
  "DynamicResourcesManager \<Rightarrow> PodResourceClaim \<Rightarrow>
     DynamicResourcesManager \<times> ResourceClaim \<times> error option" where
  "resolveK8sPodResourceClaimToResourceClaimTemplate dm claim =
     (case ResourceClaimTemplateName (Source claim) of
        None \<Rightarrow> (dm, ResourceClaim_zero, Some ''claim source missing template name'')
      | Some n \<Rightarrow>
          (case resourceClaimTemplates dm n of
             None \<Rightarrow> (dm, ResourceClaim_zero, Some ''Pod Resource Claim Source not found'')
           | Some resourceClaimTemplate \<Rightarrow> (dm, resourceClaimTemplate, None)))"

definition resolveResourceClaimTemplateToDevice ::
  "DynamicResourcesManager \<Rightarrow> ResourceClaim \<Rightarrow>
     DynamicResourcesManager \<times> string \<times> error option" where
  "resolveResourceClaimTemplateToDevice dm rt =
     (case resourceClaimParameters dm (ParametersRef rt) of
        None \<Rightarrow> (dm, [], Some ''failed to resolve resource claim parameters'')
      | Some parameters \<Rightarrow>
          if APIVersion parameters = SimpleDeviceClaimParametersApiVersion then
            (case Spec parameters ''hostpath'' of
               None \<Rightarrow>
                 (dm, [], Some ''missing hostpath in simple device resource claim parameters'')
             | Some device \<Rightarrow> (dm, device, None))
          else if APIVersion parameters = CDIClaimParametersApiVersion then
            (case Spec parameters ''device'' of
               None \<Rightarrow> (dm, [], Some (errTmpl ''device''))
             | Some devicePart \<Rightarrow>
                 (case Spec parameters ''vendor'' of
                    None \<Rightarrow> (dm, [], Some (errTmpl ''vendor''))
                  | Some vendorPart \<Rightarrow>
                      (case Spec parameters ''name'' of
                         None \<Rightarrow> (dm, [], Some (errTmpl ''name''))
                       | Some namePart \<Rightarrow>
                           (dm, vendorPart @ ''/'' @ devicePart @ ''='' @ namePart, None))))
          else
            (dm, [],
             Some (''unsupported resource claim parameter apiVersion: '' @ APIVersion parameters)))"

definition ResolveK8sPodResourceClaimToDevice ::
  "DynamicResourcesManager \<Rightarrow> PodResourceClaim \<Rightarrow>
     DynamicResourcesManager \<times> string \<times> error option" where
  "ResolveK8sPodResourceClaimToDevice dm claim =
     (case ResourceClaimName (Source claim) of
        Some _ \<Rightarrow> (dm, [], Some (errorMsgTmpl ''resource claim should be nil''))
      | None \<Rightarrow>
          (case resolveK8sPodResourceClaimToResourceClaimTemplate dm claim of
             (dm1, resourceClaimTemplate, Some err) \<Rightarrow> (dm1, [], Some (errorMsgTmpl err))
           | (dm1, resourceClaimTemplate, None) \<Rightarrow>
               resolveResourceClaimTemplateToDevice dm1 resourceClaimTemplate))"


section \<open>A populated manager\<close>

text \<open>
  Parameter sets, templates and claims on which the statements below are exercised: a
  simple device with and without its path, CDI devices with all, two and one of their
  keys, and a parameter set of a foreign schema holding every key the two schemas read.
\<close>

definition hostDevice :: ClaimParameters where
  "hostDevice = \<lparr>APIVersion = SimpleDeviceClaimParametersApiVersion, Name = ''host-device'',
     Spec = [''hostpath'' \<mapsto> ''/dev/foo'']\<rparr>"

definition bareDevice :: ClaimParameters where
  "bareDevice = \<lparr>APIVersion = SimpleDeviceClaimParametersApiVersion, Name = ''bare-device'',
     Spec = Map.empty\<rparr>"

definition acmeGpu :: ClaimParameters where
  "acmeGpu = \<lparr>APIVersion = CDIClaimParametersApiVersion, Name = ''acme-gpu'',
     Spec = [''vendor'' \<mapsto> ''acme'', ''device'' \<mapsto> ''gpu'', ''name'' \<mapsto> ''0'']\<rparr>"

definition noVendorGpu :: ClaimParameters where
  "noVendorGpu = \<lparr>APIVersion = CDIClaimParametersApiVersion, Name = ''no-vendor-gpu'',
     Spec = [''device'' \<mapsto> ''gpu'', ''name'' \<mapsto> ''0'']\<rparr>"

definition vendorOnlyGpu :: ClaimParameters where
  "vendorOnlyGpu = \<lparr>APIVersion = CDIClaimParametersApiVersion, Name = ''vendor-only-gpu'',
     Spec = [''vendor'' \<mapsto> ''acme'']\<rparr>"

definition strayDevice :: ClaimParameters where
  "strayDevice = \<lparr>APIVersion = ''stray.resource.podman.io/v1'', Name = ''stray-device'',
     Spec = [''hostpath'' \<mapsto> ''/dev/foo'', ''vendor'' \<mapsto> ''acme'', ''device'' \<mapsto> ''gpu'',
             ''name'' \<mapsto> ''0'']\<rparr>"

definition templateFor :: "string \<Rightarrow> string \<Rightarrow> ResourceClaim" where
  "templateFor T ref =
     \<lparr>APIVersion = ''resource.k8s.io/v1alpha2'', Name = T, ParametersRef = ref\<rparr>"

definition exampleManager :: DynamicResourcesManager where
  "exampleManager =
     \<lparr>resourceClaimParameters =
        [''host-device'' \<mapsto> hostDevice, ''bare-device'' \<mapsto> bareDevice,
         ''acme-gpu'' \<mapsto> acmeGpu, ''no-vendor-gpu'' \<mapsto> noVendorGpu,
         ''vendor-only-gpu'' \<mapsto> vendorOnlyGpu, ''stray-device'' \<mapsto> strayDevice],
      resourceClaimTemplates =
        [''host'' \<mapsto> templateFor ''host'' ''host-device'',
         ''bare'' \<mapsto> templateFor ''bare'' ''bare-device'',
         ''gpu'' \<mapsto> templateFor ''gpu'' ''acme-gpu'',
         ''no-vendor'' \<mapsto> templateFor ''no-vendor'' ''no-vendor-gpu'',
         ''vendor-only'' \<mapsto> templateFor ''vendor-only'' ''vendor-only-gpu'',
         ''stray'' \<mapsto> templateFor ''stray'' ''stray-device'',
         ''dangling'' \<mapsto> templateFor ''dangling'' ''nowhere'']\<rparr>"

definition templateClaim :: "string \<Rightarrow> PodResourceClaim" where
  "templateClaim T =
     \<lparr>Source = \<lparr>ResourceClaimName = None, ResourceClaimTemplateName = Some T\<rparr>\<rparr>"

definition directClaim :: "string \<Rightarrow> string option \<Rightarrow> PodResourceClaim" where
  "directClaim n T = \<lparr>Source = \<lparr>ResourceClaimName = Some n, ResourceClaimTemplateName = T\<rparr>\<rparr>"

definition emptyClaim :: PodResourceClaim where
  "emptyClaim = \<lparr>Source = \<lparr>ResourceClaimName = None, ResourceClaimTemplateName = None\<rparr>\<rparr>"

definition templateOnlyManager :: DynamicResourcesManager where
  "templateOnlyManager =
     fst (AddResourceClaimTemplate NewDynamicDevicesResourceManager
       (templateFor ''stray'' ''stray-device''))"

section \<open>Facts about the operations\<close>

lemma ApiVersions_distinct:
  "SimpleDeviceClaimParametersApiVersion \<noteq> CDIClaimParametersApiVersion"
  by (simp add: SimpleDeviceClaimParametersApiVersion_def CDIClaimParametersApiVersion_def)

subsection \<open>Registration\<close>

lemma AddClaimParameters_fresh:
  assumes "resourceClaimParameters dm (Name params) = None"
  shows "AddClaimParameters dm params =
    (dm\<lparr>resourceClaimParameters := (resourceClaimParameters dm)(Name params \<mapsto> params)\<rparr>, None)"
  using assms by (simp add: AddClaimParameters_def)

lemma AddClaimParameters_duplicate:
  assumes "resourceClaimParameters dm (Name params) = Some q"
  shows "AddClaimParameters dm params = (dm, Some ''duplicate resource claim parameters defined'')"
  using assms by (simp add: AddClaimParameters_def)

lemma AddResourceClaimTemplate_fresh:
  assumes "resourceClaimTemplates dm (Name tmpl) = None"
  shows "AddResourceClaimTemplate dm tmpl =
    (dm\<lparr>resourceClaimTemplates := (resourceClaimTemplates dm)(Name tmpl \<mapsto> tmpl)\<rparr>, None)"
  using assms by (simp add: AddResourceClaimTemplate_def)

lemma AddResourceClaimTemplate_duplicate:
  assumes "resourceClaimTemplates dm (Name tmpl) = Some q"
  shows "AddResourceClaimTemplate dm tmpl = (dm, Some ''duplicate resource claim template defined'')"
  using assms by (simp add: AddResourceClaimTemplate_def)

text \<open>An addition touches one key of one registry.\<close>

lemma AddClaimParameters_frame:
  "resourceClaimTemplates (fst (AddClaimParameters dm params)) = resourceClaimTemplates dm"
  "k \<noteq> Name params \<Longrightarrow>
     resourceClaimParameters (fst (AddClaimParameters dm params)) k = resourceClaimParameters dm k"
  by (simp_all add: AddClaimParameters_def split: option.split)

lemma AddResourceClaimTemplate_frame:
  "resourceClaimParameters (fst (AddResourceClaimTemplate dm tmpl)) = resourceClaimParameters dm"
  "k \<noteq> Name tmpl \<Longrightarrow>
     resourceClaimTemplates (fst (AddResourceClaimTemplate dm tmpl)) k = resourceClaimTemplates dm k"
  by (simp_all add: AddResourceClaimTemplate_def split: option.split)

subsection \<open>The stages of resolution\<close>

lemma template_lookup_hit:
  assumes "ResourceClaimTemplateName (Source claim) = Some T"
    and "resourceClaimTemplates dm T = Some rt"
  shows "resolveK8sPodResourceClaimToResourceClaimTemplate dm claim = (dm, rt, None)"
  using assms by (simp add: resolveK8sPodResourceClaimToResourceClaimTemplate_def)

lemma resolve_through_template:
  assumes "ResourceClaimName (Source claim) = None"
    and "ResourceClaimTemplateName (Source claim) = Some T"
    and "resourceClaimTemplates dm T = Some rt"
  shows "ResolveK8sPodResourceClaimToDevice dm claim = resolveResourceClaimTemplateToDevice dm rt"
  using assms(1) template_lookup_hit [OF assms(2,3)]
  by (simp add: ResolveK8sPodResourceClaimToDevice_def)

lemma interpret_simple:
  assumes "resourceClaimParameters dm (ParametersRef rt) = Some p"
    and "APIVersion p = SimpleDeviceClaimParametersApiVersion"
  shows "resolveResourceClaimTemplateToDevice dm rt =
    (case Spec p ''hostpath'' of
       None \<Rightarrow> (dm, [], Some ''missing hostpath in simple device resource claim parameters'')
     | Some device \<Rightarrow> (dm, device, None))"
  using assms by (simp add: resolveResourceClaimTemplateToDevice_def)

lemma interpret_cdi:
  assumes "resourceClaimParameters dm (ParametersRef rt) = Some p"
    and "APIVersion p = CDIClaimParametersApiVersion"
  shows "resolveResourceClaimTemplateToDevice dm rt =
    (case Spec p ''device'' of
       None \<Rightarrow> (dm, [], Some (errTmpl ''device''))
     | Some d \<Rightarrow>
         (case Spec p ''vendor'' of
            None \<Rightarrow> (dm, [], Some (errTmpl ''vendor''))
          | Some v \<Rightarrow>
              (case Spec p ''name'' of
                 None \<Rightarrow> (dm, [], Some (errTmpl ''name''))
               | Some n \<Rightarrow> (dm, v @ ''/'' @ d @ ''='' @ n, None))))"
  using assms ApiVersions_distinct by (simp add: resolveResourceClaimTemplateToDevice_def)

lemma interpret_cdi_missing:
  assumes "resourceClaimParameters dm (ParametersRef rt) = Some p"
    and "APIVersion p = CDIClaimParametersApiVersion"
    and "List.find (\<lambda>k. Spec p k = None) [''device'', ''vendor'', ''name''] = Some k"
  shows "resolveResourceClaimTemplateToDevice dm rt =
    (dm, [], Some (''missing '' @ k @ '' parameter of CDI claim parameter resource''))"
  using interpret_cdi [OF assms(1,2)] assms(3)
  by (auto simp add: errTmpl_def split: if_splits)

lemma interpret_other:
  assumes "resourceClaimParameters dm (ParametersRef rt) = Some p"
    and "APIVersion p \<noteq> SimpleDeviceClaimParametersApiVersion"
    and "APIVersion p \<noteq> CDIClaimParametersApiVersion"
  shows "resolveResourceClaimTemplateToDevice dm rt =
    (dm, [], Some (''unsupported resource claim parameter apiVersion: '' @ APIVersion p))"
  using assms by (simp add: resolveResourceClaimTemplateToDevice_def)

text \<open>The message of a missing CDI key names that key and no other.\<close>

lemma errTmpl_inject: "errTmpl k = errTmpl k' \<longleftrightarrow> k = k'"
  by (simp add: errTmpl_def)

subsection \<open>The registries under resolution\<close>

lemma resolve_template_state:
  "fst (resolveK8sPodResourceClaimToResourceClaimTemplate dm claim) = dm"
  by (simp add: resolveK8sPodResourceClaimToResourceClaimTemplate_def split: option.split)

lemma resolve_device_state:
  "fst (resolveResourceClaimTemplateToDevice dm rt) = dm"
  by (simp add: resolveResourceClaimTemplateToDevice_def split: option.split)

lemma resolve_state: "fst (ResolveK8sPodResourceClaimToDevice dm claim) = dm"
proof (cases "ResourceClaimName (Source claim)")
  case (Some n)
  then show ?thesis by (simp add: ResolveK8sPodResourceClaimToDevice_def)
next
  case None
  obtain dm1 rt e
    where r: "resolveK8sPodResourceClaimToResourceClaimTemplate dm claim = (dm1, rt, e)"
    by (metis prod_cases3)
  with resolve_template_state [of dm claim] have "dm1 = dm" by simp
  with None r show ?thesis
    by (cases e) (simp_all add: ResolveK8sPodResourceClaimToDevice_def resolve_device_state)
qed

lemma resolve_template_error_zero:
  "resolveK8sPodResourceClaimToResourceClaimTemplate dm claim = (dm1, rt, Some e) \<Longrightarrow>
     rt = ResourceClaim_zero"
  by (auto simp add: resolveK8sPodResourceClaimToResourceClaimTemplate_def split: option.splits)

lemma resolve_device_error_empty:
  "resolveResourceClaimTemplateToDevice dm rt = (dm1, dev, Some e) \<Longrightarrow> dev = []"
  by (auto simp add: resolveResourceClaimTemplateToDevice_def split: option.splits if_splits)

subsection \<open>The populated manager\<close>

lemma templateClaim_source:
  "ResourceClaimName (Source (templateClaim T)) = None"
  "ResourceClaimTemplateName (Source (templateClaim T)) = Some T"
  by (simp_all add: templateClaim_def)

lemma exampleManager_templates:
  "resourceClaimTemplates exampleManager ''host'' = Some (templateFor ''host'' ''host-device'')"
  "resourceClaimTemplates exampleManager ''bare'' = Some (templateFor ''bare'' ''bare-device'')"
  "resourceClaimTemplates exampleManager ''gpu'' = Some (templateFor ''gpu'' ''acme-gpu'')"
  "resourceClaimTemplates exampleManager ''no-vendor'' =
     Some (templateFor ''no-vendor'' ''no-vendor-gpu'')"
  "resourceClaimTemplates exampleManager ''vendor-only'' =
     Some (templateFor ''vendor-only'' ''vendor-only-gpu'')"
  "resourceClaimTemplates exampleManager ''stray'' = Some (templateFor ''stray'' ''stray-device'')"
  "resourceClaimTemplates exampleManager ''dangling'' = Some (templateFor ''dangling'' ''nowhere'')"
  "resourceClaimTemplates exampleManager ''absent'' = None"
  by (simp_all add: exampleManager_def)

lemma exampleManager_parameters:
  "resourceClaimParameters exampleManager (ParametersRef (templateFor T ''host-device'')) =
     Some hostDevice"
  "resourceClaimParameters exampleManager (ParametersRef (templateFor T ''bare-device'')) =
     Some bareDevice"
  "resourceClaimParameters exampleManager (ParametersRef (templateFor T ''acme-gpu'')) =
     Some acmeGpu"
  "resourceClaimParameters exampleManager (ParametersRef (templateFor T ''no-vendor-gpu'')) =
     Some noVendorGpu"
  "resourceClaimParameters exampleManager (ParametersRef (templateFor T ''vendor-only-gpu'')) =
     Some vendorOnlyGpu"
  "resourceClaimParameters exampleManager (ParametersRef (templateFor T ''stray-device'')) =
     Some strayDevice"
  "resourceClaimParameters exampleManager (ParametersRef (templateFor T ''nowhere'')) = None"
  by (simp_all add: exampleManager_def templateFor_def)

section \<open>Resolution of a claim\<close>

text \<open>
  C1. Let a template be registered under the name \<open>T\<close>, let its \<open>parametersRef\<close> name a
  registered parameter set whose schema version is the simple-device one, and let the claim
  have no direct claim name and the template name \<open>T\<close>. If the spec map of the parameter
  set maps \<open>hostpath\<close> to \<open>v\<close>, resolution succeeds and returns \<open>v\<close> as it stands; if
  the key is absent, resolution fails with the error of the missing field \<open>hostpath\<close>.
\<close>

theorem resolve_simple_device:
  assumes "resourceClaimTemplates dm T = Some rt"
    and "resourceClaimParameters dm (ParametersRef rt) = Some p"
    and "APIVersion p = SimpleDeviceClaimParametersApiVersion"
    and "ResourceClaimName (Source claim) = None"
    and "ResourceClaimTemplateName (Source claim) = Some T"
  shows "(\<forall>v. Spec p ''hostpath'' = Some v \<longrightarrow>
            ResolveK8sPodResourceClaimToDevice dm claim = (dm, v, None)) \<and>
         (Spec p ''hostpath'' = None \<longrightarrow>
            ResolveK8sPodResourceClaimToDevice dm claim =
              (dm, [], Some ''missing hostpath in simple device resource claim parameters''))"
  using resolve_through_template [OF assms(4,5,1)] interpret_simple [OF assms(2,3)]
  by simp

theorem resolve_simple_device_witness:
  "Spec hostDevice ''hostpath'' = Some ''/dev/foo'' \<and>
   ResolveK8sPodResourceClaimToDevice exampleManager (templateClaim ''host'') =
     (exampleManager, ''/dev/foo'', None) \<and>
   Spec bareDevice ''hostpath'' = None \<and>
   ResolveK8sPodResourceClaimToDevice exampleManager (templateClaim ''bare'') =
     (exampleManager, [], Some ''missing hostpath in simple device resource claim parameters'')"
proof -
  have a1: "APIVersion hostDevice = SimpleDeviceClaimParametersApiVersion"
    by (simp add: hostDevice_def)
  have s1: "Spec hostDevice ''hostpath'' = Some ''/dev/foo''"
    by (simp add: hostDevice_def)
  have a2: "APIVersion bareDevice = SimpleDeviceClaimParametersApiVersion"
    by (simp add: bareDevice_def)
  have s2: "Spec bareDevice ''hostpath'' = None"
    by (simp add: bareDevice_def)
  show ?thesis
    using
      resolve_simple_device [OF exampleManager_templates(1) exampleManager_parameters(1) a1
        templateClaim_source]
      resolve_simple_device [OF exampleManager_templates(2) exampleManager_parameters(2) a2
        templateClaim_source]
      s1 s2
    by simp
qed

text \<open>
  C2. Under the same registration, with the CDI schema version and a spec map holding
  \<open>device\<close>, \<open>vendor\<close> and \<open>name\<close> (values \<open>d\<close>, \<open>v\<close>, \<open>n\<close>), resolution succeeds
  and returns the vendor, a slash, the device, an equals sign and the name. Vendor
  \<open>acme\<close>, device \<open>gpu\<close> and name \<open>0\<close> give \<open>acme/gpu=0\<close>.
\<close>

theorem resolve_cdi_device:
  assumes "resourceClaimTemplates dm T = Some rt"
    and "resourceClaimParameters dm (ParametersRef rt) = Some p"
    and "APIVersion p = CDIClaimParametersApiVersion"
    and "Spec p ''device'' = Some d"
    and "Spec p ''vendor'' = Some v"
    and "Spec p ''name'' = Some n"
    and "ResourceClaimName (Source claim) = None"
    and "ResourceClaimTemplateName (Source claim) = Some T"
  shows "ResolveK8sPodResourceClaimToDevice dm claim = (dm, v @ ''/'' @ d @ ''='' @ n, None)"
  using resolve_through_template [OF assms(7,8,1)] interpret_cdi [OF assms(2,3)] assms(4-6)
  by simp

theorem resolve_cdi_device_witness:
  "Spec acmeGpu ''vendor'' = Some ''acme'' \<and> Spec acmeGpu ''device'' = Some ''gpu'' \<and>
   Spec acmeGpu ''name'' = Some ''0'' \<and>
   ResolveK8sPodResourceClaimToDevice exampleManager (templateClaim ''gpu'') =
     (exampleManager, ''acme/gpu=0'', None)"
proof -
  have a: "APIVersion acmeGpu = CDIClaimParametersApiVersion"
    by (simp add: acmeGpu_def)
  have d: "Spec acmeGpu ''device'' = Some ''gpu''"
    and v: "Spec acmeGpu ''vendor'' = Some ''acme''"
    and n: "Spec acmeGpu ''name'' = Some ''0''"
    by (simp_all add: acmeGpu_def)
  show ?thesis
    using
      resolve_cdi_device [OF exampleManager_templates(3) exampleManager_parameters(3) a d v n
        templateClaim_source]
      d v n
    by simp
qed

text \<open>
  C3. A claim whose direct claim name is set is refused with the error that the resource
  claim should be nil, whatever the two registries hold and whether or not the claim also
  carries a template name.
\<close>

theorem direct_claim_name_rejected:
  assumes "ResourceClaimName (Source claim) = Some n"
  shows "ResolveK8sPodResourceClaimToDevice dm claim =
    (dm, [], Some ''failed to resolve resource claim to device: resource claim should be nil'')"
  using assms by (simp add: ResolveK8sPodResourceClaimToDevice_def errorMsgTmpl_def)

theorem direct_claim_name_rejected_witness:
  "ResolveK8sPodResourceClaimToDevice exampleManager (directClaim ''claim-0'' (Some ''host'')) =
     (exampleManager, [],
      Some ''failed to resolve resource claim to device: resource claim should be nil'') \<and>
   ResolveK8sPodResourceClaimToDevice NewDynamicDevicesResourceManager (directClaim [] None) =
     (NewDynamicDevicesResourceManager, [],
      Some ''failed to resolve resource claim to device: resource claim should be nil'')"
proof -
  have h: "ResourceClaimName (Source (directClaim n T)) = Some n" for n T
    by (simp add: directClaim_def)
  show ?thesis
    using
      direct_claim_name_rejected [OF h [of "''claim-0''" "Some ''host''"], of exampleManager]
      direct_claim_name_rejected [OF h [of "[]" None], of NewDynamicDevicesResourceManager]
    by simp
qed

text \<open>
  C4. For a claim with no direct claim name: without a template name resolution fails with
  the error of the missing template name; with a template name that the template registry
  does not hold it fails with the error that the source was not found; with a registered
  template whose \<open>parametersRef\<close> the parameter registry does not hold it fails with the
  error that the parameters could not be resolved.
\<close>

theorem lookup_failures:
  assumes "ResourceClaimName (Source claim) = None"
  shows "(ResourceClaimTemplateName (Source claim) = None \<longrightarrow>
            ResolveK8sPodResourceClaimToDevice dm claim =
              (dm, [],
               Some ''failed to resolve resource claim to device: claim source missing template name'')) \<and>
         (\<forall>T. ResourceClaimTemplateName (Source claim) = Some T \<and>
              resourceClaimTemplates dm T = None \<longrightarrow>
            ResolveK8sPodResourceClaimToDevice dm claim =
              (dm, [],
               Some ''failed to resolve resource claim to device: Pod Resource Claim Source not found'')) \<and>
         (\<forall>T rt. ResourceClaimTemplateName (Source claim) = Some T \<and>
              resourceClaimTemplates dm T = Some rt \<and>
              resourceClaimParameters dm (ParametersRef rt) = None \<longrightarrow>
            ResolveK8sPodResourceClaimToDevice dm claim =
              (dm, [], Some ''failed to resolve resource claim parameters''))"
  using assms
  by (simp add: ResolveK8sPodResourceClaimToDevice_def errorMsgTmpl_def
      resolveK8sPodResourceClaimToResourceClaimTemplate_def
      resolveResourceClaimTemplateToDevice_def)

theorem lookup_failures_witness:
  "ResolveK8sPodResourceClaimToDevice exampleManager emptyClaim =
     (exampleManager, [],
      Some ''failed to resolve resource claim to device: claim source missing template name'') \<and>
   ResolveK8sPodResourceClaimToDevice exampleManager (templateClaim ''absent'') =
     (exampleManager, [],
      Some ''failed to resolve resource claim to device: Pod Resource Claim Source not found'') \<and>
   ResolveK8sPodResourceClaimToDevice exampleManager (templateClaim ''dangling'') =
     (exampleManager, [], Some ''failed to resolve resource claim parameters'')"
proof -
  have e: "ResourceClaimName (Source emptyClaim) = None"
    "ResourceClaimTemplateName (Source emptyClaim) = None"
    by (simp_all add: emptyClaim_def)
  show ?thesis
    using lookup_failures [OF e(1), of exampleManager] e(2)
      lookup_failures [OF templateClaim_source(1), of "''absent''" exampleManager]
      lookup_failures [OF templateClaim_source(1), of "''dangling''" exampleManager]
      templateClaim_source(2) exampleManager_templates(7,8) exampleManager_parameters(7)
    by simp
qed

text \<open>
  C5. A CDI parameter set whose spec map lacks one or more of \<open>device\<close>, \<open>vendor\<close> and
  \<open>name\<close> fails with the error of a missing field that names the first absent key in
  the order device, vendor, name. A set with \<open>device\<close> and \<open>name\<close> but no \<open>vendor\<close>
  fails on \<open>vendor\<close>; a set with \<open>vendor\<close> alone fails on \<open>device\<close>.
\<close>

theorem cdi_first_missing_field:
  assumes "resourceClaimTemplates dm T = Some rt"
    and "resourceClaimParameters dm (ParametersRef rt) = Some p"
    and "APIVersion p = CDIClaimParametersApiVersion"
    and "ResourceClaimName (Source claim) = None"
    and "ResourceClaimTemplateName (Source claim) = Some T"
    and "List.find (\<lambda>k. Spec p k = None) [''device'', ''vendor'', ''name''] = Some k"
  shows "ResolveK8sPodResourceClaimToDevice dm claim =
    (dm, [], Some (''missing '' @ k @ '' parameter of CDI claim parameter resource''))"
  using resolve_through_template [OF assms(4,5,1)] interpret_cdi_missing [OF assms(2,3,6)]
  by simp

theorem cdi_first_missing_field_witness:
  "List.find (\<lambda>k. Spec noVendorGpu k = None) [''device'', ''vendor'', ''name''] = Some ''vendor'' \<and>
   ResolveK8sPodResourceClaimToDevice exampleManager (templateClaim ''no-vendor'') =
     (exampleManager, [], Some ''missing vendor parameter of CDI claim parameter resource'') \<and>
   List.find (\<lambda>k. Spec vendorOnlyGpu k = None) [''device'', ''vendor'', ''name''] = Some ''device'' \<and>
   ResolveK8sPodResourceClaimToDevice exampleManager (templateClaim ''vendor-only'') =
     (exampleManager, [], Some ''missing device parameter of CDI claim parameter resource'')"
proof -
  have a1: "APIVersion noVendorGpu = CDIClaimParametersApiVersion"
    by (simp add: noVendorGpu_def)
  have f1: "List.find (\<lambda>k. Spec noVendorGpu k = None) [''device'', ''vendor'', ''name''] =
      Some ''vendor''"
    by (simp add: noVendorGpu_def)
  have a2: "APIVersion vendorOnlyGpu = CDIClaimParametersApiVersion"
    by (simp add: vendorOnlyGpu_def)
  have f2: "List.find (\<lambda>k. Spec vendorOnlyGpu k = None) [''device'', ''vendor'', ''name''] =
      Some ''device''"
    by (simp add: vendorOnlyGpu_def)
  show ?thesis
    using
      cdi_first_missing_field [OF exampleManager_templates(4) exampleManager_parameters(4) a1
        templateClaim_source f1]
      cdi_first_missing_field [OF exampleManager_templates(5) exampleManager_parameters(5) a2
        templateClaim_source f2]
      f1 f2
    by simp
qed

text \<open>
  C6. A parameter set whose schema version is neither the simple-device nor the CDI one
  fails with the error of the unsupported version, which carries that version, whatever
  its spec map holds: also when it holds \<open>hostpath\<close>, \<open>vendor\<close>, \<open>device\<close> and
  \<open>name\<close> together.
\<close>

theorem unsupported_schema:
  assumes "resourceClaimTemplates dm T = Some rt"
    and "resourceClaimParameters dm (ParametersRef rt) = Some p"
    and "APIVersion p \<noteq> SimpleDeviceClaimParametersApiVersion"
    and "APIVersion p \<noteq> CDIClaimParametersApiVersion"
    and "ResourceClaimName (Source claim) = None"
    and "ResourceClaimTemplateName (Source claim) = Some T"
  shows "ResolveK8sPodResourceClaimToDevice dm claim =
    (dm, [], Some (''unsupported resource claim parameter apiVersion: '' @ APIVersion p))"
  using resolve_through_template [OF assms(5,6,1)] interpret_other [OF assms(2,3,4)]
  by simp

theorem unsupported_schema_witness:
  "Spec strayDevice ''hostpath'' \<noteq> None \<and> Spec strayDevice ''vendor'' \<noteq> None \<and>
   Spec strayDevice ''device'' \<noteq> None \<and> Spec strayDevice ''name'' \<noteq> None \<and>
   ResolveK8sPodResourceClaimToDevice exampleManager (templateClaim ''stray'') =
     (exampleManager, [],
      Some ''unsupported resource claim parameter apiVersion: stray.resource.podman.io/v1'')"
proof -
  have a: "APIVersion strayDevice \<noteq> SimpleDeviceClaimParametersApiVersion"
    "APIVersion strayDevice \<noteq> CDIClaimParametersApiVersion"
    by (simp_all add: strayDevice_def SimpleDeviceClaimParametersApiVersion_def
        CDIClaimParametersApiVersion_def)
  have v: "APIVersion strayDevice = ''stray.resource.podman.io/v1''"
    by (simp add: strayDevice_def)
  have s: "Spec strayDevice ''hostpath'' \<noteq> None" "Spec strayDevice ''vendor'' \<noteq> None"
    "Spec strayDevice ''device'' \<noteq> None" "Spec strayDevice ''name'' \<noteq> None"
    by (simp_all add: strayDevice_def)
  show ?thesis
    using
      unsupported_schema [OF exampleManager_templates(6) exampleManager_parameters(6) a
        templateClaim_source]
      v s
    by simp
qed

section \<open>The registries\<close>

text \<open>
  C7. In both registries, adding an entry under a name that is not yet registered
  succeeds, and reading that name right afterwards gives the entry that was added. Adding
  a second entry under the same name fails with the error of the duplicate and leaves the
  manager, and with it the first entry, as it was.
\<close>

theorem registry_add_then_get:
  fixes p p' :: ClaimParameters and t t' :: ResourceClaim
  shows
    "(resourceClaimParameters dm (Name p) = None \<and> Name p' = Name p \<longrightarrow>
        snd (AddClaimParameters dm p) = None \<and>
        resourceClaimParameters (fst (AddClaimParameters dm p)) (Name p) = Some p \<and>
        AddClaimParameters (fst (AddClaimParameters dm p)) p' =
          (fst (AddClaimParameters dm p), Some ''duplicate resource claim parameters defined'')) \<and>
     (resourceClaimTemplates dm (Name t) = None \<and> Name t' = Name t \<longrightarrow>
        snd (AddResourceClaimTemplate dm t) = None \<and>
        resourceClaimTemplates (fst (AddResourceClaimTemplate dm t)) (Name t) = Some t \<and>
        AddResourceClaimTemplate (fst (AddResourceClaimTemplate dm t)) t' =
          (fst (AddResourceClaimTemplate dm t), Some ''duplicate resource claim template defined''))"
  by (simp add: AddClaimParameters_def AddResourceClaimTemplate_def)

theorem registry_add_then_get_witness:
  "snd (AddClaimParameters NewDynamicDevicesResourceManager hostDevice) = None \<and>
   resourceClaimParameters (fst (AddClaimParameters NewDynamicDevicesResourceManager hostDevice))
     ''host-device'' = Some hostDevice \<and>
   AddClaimParameters (fst (AddClaimParameters NewDynamicDevicesResourceManager hostDevice))
       (hostDevice\<lparr>Spec := Map.empty\<rparr>) =
     (fst (AddClaimParameters NewDynamicDevicesResourceManager hostDevice),
      Some ''duplicate resource claim parameters defined'') \<and>
   snd (AddResourceClaimTemplate NewDynamicDevicesResourceManager (templateFor ''host'' ''host-device'')) =
     None \<and>
   resourceClaimTemplates
     (fst (AddResourceClaimTemplate NewDynamicDevicesResourceManager
        (templateFor ''host'' ''host-device''))) ''host'' =
     Some (templateFor ''host'' ''host-device'') \<and>
   AddResourceClaimTemplate
       (fst (AddResourceClaimTemplate NewDynamicDevicesResourceManager
          (templateFor ''host'' ''host-device'')))
       (templateFor ''host'' ''acme-gpu'') =
     (fst (AddResourceClaimTemplate NewDynamicDevicesResourceManager
        (templateFor ''host'' ''host-device'')),
      Some ''duplicate resource claim template defined'')"
proof -
  have n: "Name hostDevice = ''host-device''"
    "Name (hostDevice\<lparr>Spec := Map.empty\<rparr>) = Name hostDevice"
    "Name (templateFor T ref) = T" for T ref
    by (simp_all add: hostDevice_def templateFor_def)
  have f: "resourceClaimParameters NewDynamicDevicesResourceManager k = None"
    "resourceClaimTemplates NewDynamicDevicesResourceManager k = None" for k
    by (simp_all add: NewDynamicDevicesResourceManager_def)
  show ?thesis
    using
      registry_add_then_get [of NewDynamicDevicesResourceManager hostDevice
        "hostDevice\<lparr>Spec := Map.empty\<rparr>" "templateFor ''host'' ''host-device''"
        "templateFor ''host'' ''acme-gpu''"]
      n f
    by simp
qed

text \<open>
  C8. Resolution is a function of the registries and the claim: resolving a claim again,
  on the manager that the first resolution left behind, gives the same manager, the same
  device and the same error.
\<close>

theorem resolve_twice:
  "ResolveK8sPodResourceClaimToDevice (fst (ResolveK8sPodResourceClaimToDevice dm claim)) claim =
     ResolveK8sPodResourceClaimToDevice dm claim"
  by (simp add: resolve_state)

text \<open>
  C9. Whenever resolution returns an error, at whichever stage, the manager it returns is
  the manager it was given, so that neither registry has changed, and the device it
  returns is the empty string.
\<close>

theorem failure_is_clean:
  assumes "ResolveK8sPodResourceClaimToDevice dm claim = (dm', dev, Some e)"
  shows "dm' = dm \<and> dev = []"
proof
  from assms resolve_state [of dm claim] show "dm' = dm" by simp
next
  show "dev = []"
  proof (cases "ResourceClaimName (Source claim)")
    case (Some n)
    with assms show ?thesis by (simp add: ResolveK8sPodResourceClaimToDevice_def)
  next
    case None
    obtain dm1 rt e1
      where r: "resolveK8sPodResourceClaimToResourceClaimTemplate dm claim = (dm1, rt, e1)"
      by (metis prod_cases3)
    show ?thesis
    proof (cases e1)
      case (Some m)
      with None r assms show ?thesis by (simp add: ResolveK8sPodResourceClaimToDevice_def)
    next
      case stage: None
      with None r assms have "resolveResourceClaimTemplateToDevice dm1 rt = (dm', dev, Some e)"
        by (simp add: ResolveK8sPodResourceClaimToDevice_def)
      then show ?thesis by (rule resolve_device_error_empty)
    qed
  qed
qed

theorem failure_is_clean_witness:
  "snd (snd (ResolveK8sPodResourceClaimToDevice exampleManager (templateClaim ''no-vendor''))) =
     Some ''missing vendor parameter of CDI claim parameter resource'' \<and>
   fst (ResolveK8sPodResourceClaimToDevice exampleManager (templateClaim ''no-vendor'')) =
     exampleManager \<and>
   fst (snd (ResolveK8sPodResourceClaimToDevice exampleManager (templateClaim ''no-vendor''))) = []"
proof -
  let ?r = "ResolveK8sPodResourceClaimToDevice exampleManager (templateClaim ''no-vendor'')"
  have a: "APIVersion noVendorGpu = CDIClaimParametersApiVersion"
    by (simp add: noVendorGpu_def)
  have f: "List.find (\<lambda>k. Spec noVendorGpu k = None) [''device'', ''vendor'', ''name''] =
      Some ''vendor''"
    by (simp add: noVendorGpu_def)
  have e: "snd (snd ?r) = Some ''missing vendor parameter of CDI claim parameter resource''"
    using resolve_through_template [OF templateClaim_source exampleManager_templates(4)]
      interpret_cdi_missing [OF exampleManager_parameters(4) a f]
    by simp
  then have "?r = (fst ?r, fst (snd ?r),
      Some ''missing vendor parameter of CDI claim parameter resource'')"
    by (metis prod.collapse)
  from failure_is_clean [OF this] e show ?thesis by simp
qed

text \<open>
  C10. Registration validates nothing but the name. Adding a parameter set fails exactly
  when its name is already registered, whatever its schema version and its spec map are,
  and adding a template fails exactly when its name is already registered. A parameter
  set of an unknown schema, or one that lacks a key its schema requires, is accepted under
  a fresh name and is refused only when a claim is resolved through it.
\<close>

theorem registration_unvalidated:
  fixes p :: ClaimParameters and t :: ResourceClaim
  shows
    "(snd (AddClaimParameters dm p) = None \<longleftrightarrow> resourceClaimParameters dm (Name p) = None) \<and>
     (snd (AddResourceClaimTemplate dm t) = None \<longleftrightarrow> resourceClaimTemplates dm (Name t) = None) \<and>
     (resourceClaimParameters dm (Name p) = None \<and> resourceClaimTemplates dm T = Some rt \<and>
      ParametersRef rt = Name p \<and> ResourceClaimName (Source claim) = None \<and>
      ResourceClaimTemplateName (Source claim) = Some T \<longrightarrow>
        (APIVersion p \<noteq> SimpleDeviceClaimParametersApiVersion \<and>
         APIVersion p \<noteq> CDIClaimParametersApiVersion \<longrightarrow>
           ResolveK8sPodResourceClaimToDevice (fst (AddClaimParameters dm p)) claim =
             (fst (AddClaimParameters dm p), [],
              Some (''unsupported resource claim parameter apiVersion: '' @ APIVersion p))) \<and>
        (APIVersion p = SimpleDeviceClaimParametersApiVersion \<and> Spec p ''hostpath'' = None \<longrightarrow>
           ResolveK8sPodResourceClaimToDevice (fst (AddClaimParameters dm p)) claim =
             (fst (AddClaimParameters dm p), [],
              Some ''missing hostpath in simple device resource claim parameters'')) \<and>
        (\<forall>k. APIVersion p = CDIClaimParametersApiVersion \<and>
           List.find (\<lambda>k. Spec p k = None) [''device'', ''vendor'', ''name''] = Some k \<longrightarrow>
           ResolveK8sPodResourceClaimToDevice (fst (AddClaimParameters dm p)) claim =
             (fst (AddClaimParameters dm p), [],
              Some (''missing '' @ k @ '' parameter of CDI claim parameter resource''))))"
proof (intro conjI impI allI)
  show "snd (AddClaimParameters dm p) = None \<longleftrightarrow> resourceClaimParameters dm (Name p) = None"
    by (simp add: AddClaimParameters_def split: option.split)
  show "snd (AddResourceClaimTemplate dm t) = None \<longleftrightarrow> resourceClaimTemplates dm (Name t) = None"
    by (simp add: AddResourceClaimTemplate_def split: option.split)
next
  assume h: "resourceClaimParameters dm (Name p) = None \<and> resourceClaimTemplates dm T = Some rt \<and>
    ParametersRef rt = Name p \<and> ResourceClaimName (Source claim) = None \<and>
    ResourceClaimTemplateName (Source claim) = Some T"
  let ?dm1 = "fst (AddClaimParameters dm p)"
  from h have tm: "resourceClaimTemplates ?dm1 T = Some rt"
    by (simp add: AddClaimParameters_frame(1))
  from h have pm: "resourceClaimParameters ?dm1 (ParametersRef rt) = Some p"
    by (simp add: AddClaimParameters_fresh)
  from h have via: "ResolveK8sPodResourceClaimToDevice ?dm1 claim =
      resolveResourceClaimTemplateToDevice ?dm1 rt"
    using resolve_through_template [OF _ _ tm] by simp
  {
    assume "APIVersion p \<noteq> SimpleDeviceClaimParametersApiVersion \<and>
      APIVersion p \<noteq> CDIClaimParametersApiVersion"
    then show "ResolveK8sPodResourceClaimToDevice ?dm1 claim =
        (?dm1, [], Some (''unsupported resource claim parameter apiVersion: '' @ APIVersion p))"
      using via interpret_other [OF pm] by simp
  next
    assume "APIVersion p = SimpleDeviceClaimParametersApiVersion \<and> Spec p ''hostpath'' = None"
    then show "ResolveK8sPodResourceClaimToDevice ?dm1 claim =
        (?dm1, [], Some ''missing hostpath in simple device resource claim parameters'')"
      using via interpret_simple [OF pm] by simp
  next
    fix k
    assume "APIVersion p = CDIClaimParametersApiVersion \<and>
      List.find (\<lambda>k. Spec p k = None) [''device'', ''vendor'', ''name''] = Some k"
    then show "ResolveK8sPodResourceClaimToDevice ?dm1 claim =
        (?dm1, [], Some (''missing '' @ k @ '' parameter of CDI claim parameter resource''))"
      using via interpret_cdi_missing [OF pm] by simp
  }
qed

theorem registration_unvalidated_witness:
  "snd (AddClaimParameters templateOnlyManager strayDevice) = None \<and>
   ResolveK8sPodResourceClaimToDevice (fst (AddClaimParameters templateOnlyManager strayDevice))
       (templateClaim ''stray'') =
     (fst (AddClaimParameters templateOnlyManager strayDevice), [],
      Some ''unsupported resource claim parameter apiVersion: stray.resource.podman.io/v1'') \<and>
   snd (AddClaimParameters (fst (AddClaimParameters templateOnlyManager strayDevice)) strayDevice)
     \<noteq> None \<and>
   snd (AddResourceClaimTemplate templateOnlyManager (templateFor ''stray'' ''host-device''))
     \<noteq> None"
proof -
  have fresh: "resourceClaimParameters templateOnlyManager (Name strayDevice) = None"
    by (simp add: templateOnlyManager_def AddResourceClaimTemplate_frame(1)
        NewDynamicDevicesResourceManager_def)
  have tm: "resourceClaimTemplates templateOnlyManager ''stray'' =
      Some (templateFor ''stray'' ''stray-device'')"
    by (simp add: templateOnlyManager_def AddResourceClaimTemplate_def
        NewDynamicDevicesResourceManager_def templateFor_def)
  have ref: "ParametersRef (templateFor ''stray'' ''stray-device'') = Name strayDevice"
    "Name (templateFor ''stray'' ''host-device'') = ''stray''"
    by (simp_all add: templateFor_def strayDevice_def)
  have a: "APIVersion strayDevice \<noteq> SimpleDeviceClaimParametersApiVersion"
    "APIVersion strayDevice \<noteq> CDIClaimParametersApiVersion"
    "APIVersion strayDevice = ''stray.resource.podman.io/v1''"
    by (simp_all add: strayDevice_def SimpleDeviceClaimParametersApiVersion_def
        CDIClaimParametersApiVersion_def)
  have stored: "resourceClaimParameters (fst (AddClaimParameters templateOnlyManager strayDevice))
      (Name strayDevice) = Some strayDevice"
    using fresh by (simp add: AddClaimParameters_fresh)
  show ?thesis
    using
      registration_unvalidated [of templateOnlyManager strayDevice
        "templateFor ''stray'' ''host-device''" "''stray''" "templateFor ''stray'' ''stray-device''"
        "templateClaim ''stray''"]
      registration_unvalidated [of "fst (AddClaimParameters templateOnlyManager strayDevice)"
        strayDevice "templateFor ''stray'' ''host-device''" "''stray''"
        "templateFor ''stray'' ''stray-device''" "templateClaim ''stray''"]
      fresh tm ref a stored templateClaim_source
    by simp
qed

end
